theory Spec2Isabelle
  imports Main
begin

section \<open>The language-client supervisor of \<^verbatim>\<open>src/extension.ts\<close>\<close>

text \<open>
  The module keeps its session in module-scoped variables: \<^verbatim>\<open>initializationError\<close>
  (initially \<^verbatim>\<open>undefined\<close>), \<^verbatim>\<open>crashCount\<close> (initially 0), the output
  channel and the telemetry reporter. The handlers passed to the language client read and
  write them. The model threads one record through every handler; the output channel, the
  reporter and the error notifications of the window are kept as the lists of what was sent
  to them, oldest first.
\<close>

datatype CloseAction = DoNotRestart | Restart

text \<open>
  A value handed to the initialization-failure handler. Its parameter type is
  \<^verbatim>\<open>ResponseError<InitializeError> | Error | any\<close>; the model keeps the two error
  classes, and \<^verbatim>\<open>undefined\<close> is \<open>None\<close> of the option type, as it is for the
  slot \<^verbatim>\<open>initializationError\<close> itself.
\<close>

datatype init_error =
    ResponseError int string bool
  | Error string

datatype telemetry =
    TelemetryEvent string
  | TelemetryException "init_error option"

text \<open>
  One call of \<^verbatim>\<open>vscode.window.showErrorMessage(msg, {detail, modal}, ...items)\<close>: the
  fields are the message, the two options and the titles of the items offered, in order.
\<close>

record error_message =
  em_message :: string
  em_detail :: string
  em_modal :: bool
  em_items :: "string list"

record extension_state =
  initializationError :: "init_error option"
  crashCount :: nat
  outputChannel :: "string list"
  reporter :: "telemetry list"
  errorMessages :: "error_message list"

text \<open>
  What \<^verbatim>\<open>closed\<close> returns: \<^verbatim>\<open>{ message?, action }\<close>. The restart branch returns
  no \<^verbatim>\<open>message\<close> property.
\<close>

record CloseHandlerResult =
  ch_message :: "string option"
  ch_action :: CloseAction

definition initial_state :: extension_state where
  "initial_state =
     \<lparr>initializationError = None, crashCount = 0, outputChannel = [],
      reporter = [], errorMessages = []\<rparr>"

definition appendLine :: "string \<Rightarrow> extension_state \<Rightarrow> extension_state" where
  "appendLine l s = s\<lparr>outputChannel := outputChannel s @ [l]\<rparr>"

text \<open>
  \<^verbatim>\<open>crashCount = crashCount + 1\<close> on a JavaScript number. The counter starts at 0
  and only this statement writes it, so it is a non-negative integer; the sum is exact
  below \<open>2 ^ 53\<close>, and \<open>2 ^ 53 + 1\<close> rounds back to \<open>2 ^ 53\<close>, where the counter
  stays. Larger values are not reachable.
\<close>

definition js_add_one :: "nat \<Rightarrow> nat" where
  "js_add_one n = (if n < 2 ^ 53 then n + 1 else n)"

definition failure_message :: string where
  "failure_message =
     ''Failure to start terraform-ls. Please check your configuration settings and reload this window''"

definition serve_message :: string where
  \<open>serve_message =
     ''You need at least a "serve" argument in the `terraform.languageServer.args` setting. Please check your configuration settings and reload this window''\<close>

text \<open>The handler \<^verbatim>\<open>errorHandler.closed\<close> (lines 149 to 182).\<close>

definition closed :: "extension_state \<Rightarrow> CloseHandlerResult \<times> extension_state" where
  "closed s =
     (if initializationError s \<noteq> None then
        (\<lparr>ch_message = Some '''', ch_action = DoNotRestart\<rparr>,
         appendLine ''Initialization error handled by handler'' s)
      else
        let s1 = s\<lparr>crashCount := js_add_one (crashCount s)\<rparr> in
        if crashCount s1 \<le> 1 then
          (\<lparr>ch_message = None, ch_action = Restart\<rparr>,
           appendLine ''Server has failed. Restarting'' s1)
        else
          (\<lparr>ch_message = Some failure_message, ch_action = DoNotRestart\<rparr>,
           appendLine failure_message s1))"

text \<open>
  A run of \<open>n\<close> close events, one after the other, with the results in the order of the
  events.
\<close>

fun closes :: "nat \<Rightarrow> extension_state \<Rightarrow> CloseHandlerResult list \<times> extension_state" where
  "closes 0 s = ([], s)"
| "closes (Suc n) s =
     (case closed s of (r, s1) \<Rightarrow>
        (case closes n s1 of (rs, s2) \<Rightarrow> (r # rs, s2)))"

text \<open>
  The handler \<^verbatim>\<open>initializationFailedHandler\<close> (lines 92 to 140). Its first argument
  here is the value of the setting \<^verbatim>\<open>terraform.languageServer.args\<close> (default
  \<^verbatim>\<open>[]\<close>); \<^verbatim>\<open>serverArgs[0]\<close> of an empty array is \<^verbatim>\<open>undefined\<close>, which differs
  from \<^verbatim>\<open>'serve'\<close>.
\<close>

definition first_is_not_serve :: "string list \<Rightarrow> bool" where
  "first_is_not_serve serverArgs =
     (case serverArgs of [] \<Rightarrow> True | a # _ \<Rightarrow> a \<noteq> ''serve'')"

definition initializationFailedHandler ::
  "string list \<Rightarrow> init_error option \<Rightarrow> extension_state \<Rightarrow> bool \<times> extension_state" where
  "initializationFailedHandler serverArgs error s =
     (let s1 = s\<lparr>initializationError := error\<rparr>;
          s2 = s1\<lparr>reporter := reporter s1 @ [TelemetryException error]\<rparr>;
          msg = (if first_is_not_serve serverArgs then serve_message else failure_message);
          s3 = appendLine msg s2;
          s4 = s3\<lparr>errorMessages := errorMessages s3 @
                 [\<lparr>em_message = msg, em_detail = '''', em_modal = False,
                   em_items = [''Open Settings'', ''Open Logs'', ''More Info'']\<rparr>]\<rparr>
      in (False, s4))"

text \<open>
  The continuation of the notification (lines 118 to 137): what the window does for the
  item the user chose, \<open>None\<close> when the notification was dismissed.
\<close>

datatype ui_effect =
    OutputChannelShow
  | ExecuteCommand string string

definition notification_choice :: "string option \<Rightarrow> ui_effect list" where
  "notification_choice choice =
     (case choice of
        None \<Rightarrow> []
      | Some title \<Rightarrow>
          if title = ''Open Logs'' then [OutputChannelShow]
          else if title = ''Open Settings'' then
            [ExecuteCommand ''workbench.action.openSettings'' ''@ext:hashicorp.terraform'']
          else if title = ''More Info'' then
            [ExecuteCommand ''vscode.open''
               ''https://github.com/hashicorp/vscode-terraform#troubleshooting'']
          else [])"

section \<open>The Terraform Cloud views of \<^verbatim>\<open>src/providers/terraformCloudProvider.ts\<close>\<close>

subsection \<open>Values of the host and of the remote API\<close>

text \<open>
  A \<^verbatim>\<open>Memento\<close> of the extension context (\<^verbatim>\<open>ctx.workspaceState\<close>,
  \<^verbatim>\<open>ctx.globalState\<close>): \<^verbatim>\<open>get(key, defaultValue)\<close> gives the default for a key
  that holds nothing, \<^verbatim>\<open>update(key, value)\<close> stores a value.
\<close>

type_synonym memento = "string \<rightharpoonup> string"

definition memento_get :: "memento \<Rightarrow> string \<Rightarrow> string \<Rightarrow> string" where
  "memento_get m key defaultValue = (case m key of None \<Rightarrow> defaultValue | Some v \<Rightarrow> v)"

definition memento_update :: "memento \<Rightarrow> string \<Rightarrow> string \<Rightarrow> memento" where
  "memento_update m key v = m(key \<mapsto> v)"

definition organization_key :: string where
  "organization_key = ''terraform.cloud.organization''"

text \<open>
  A promise, once it has settled. The reason of a rejection is a value of
  \<open>fetch_error\<close>. A synchronous call either returns or throws; a call of an
  \<^verbatim>\<open>async\<close> function always returns, with its promise, and what the body throws or
  awaits in vain becomes the rejection of that promise.
\<close>

datatype fetch_error = NetworkError string

datatype 'a promise = Resolved 'a | Rejected fetch_error

datatype 'a completion = Returned 'a | Thrown fetch_error

definition async_call :: "'a promise \<Rightarrow> 'a promise completion" where
  "async_call p = Returned p"

text \<open>
  \<^verbatim>\<open>vscode.ProviderResult<T[]>\<close>: the array itself, or a thenable of it.
\<close>

datatype 'a provider_result = Items "'a list" | Thenable "'a list promise"

text \<open>
  The argument of a list call of \<^verbatim>\<open>apiClient\<close>: \<^verbatim>\<open>{ params, queries? }\<close>, each an
  object written here as the list of its properties. The client itself
  (\<^verbatim>\<open>../terraformCloud\<close>) is outside the program: the model takes its answers as a
  parameter, a record of what each list call settles to. An element of \<^verbatim>\<open>response.data\<close>
  is read at \<^verbatim>\<open>id\<close> and \<^verbatim>\<open>attributes.name\<close> (\<^verbatim>\<open>attributes.message\<close> for a run).
\<close>

record request =
  params :: "(string \<times> string) list"
  queries :: "(string \<times> string) list option"

record named_element =
  el_id :: string
  el_name :: string

record run_element =
  re_id :: string
  re_message :: string

record apiClient =
  listOrganizations :: "named_element list promise"
  listProjects :: "request \<Rightarrow> named_element list promise"
  listWorkspaces :: "request \<Rightarrow> named_element list promise"
  listRuns :: "request \<Rightarrow> run_element list promise"

datatype api_call =
    ListOrganizations
  | ListProjects request
  | ListWorkspaces request
  | ListRuns request

text \<open>
  The tree items: \<^verbatim>\<open>WorkspaceTreeItem(name, id)\<close> and
  \<^verbatim>\<open>RunTreeItem(name, id, url)\<close>.
\<close>

record WorkspaceTreeItem =
  wt_name :: string
  wt_id :: string

record RunTreeItem =
  rt_name :: string
  rt_id :: string
  rt_url :: string

record QuickPickItem =
  label :: string
  detail :: string

subsection \<open>The state of the feature\<close>

text \<open>
  The two mementos of the context, the status bar item, the information messages shown,
  the field \<^verbatim>\<open>projectID\<close> of the workspace provider and the field
  \<^verbatim>\<open>workspace\<close> of the run provider. Three logs record what left the program: the
  calls of the API client, and for each provider the firings of \<^verbatim>\<open>didChangeTreeData\<close>,
  each with the value its provider's field held at that moment.
\<close>

record cloud_state =
  workspaceState :: memento
  globalState :: memento
  statusBarText :: string
  statusBarVisible :: bool
  informationMessages :: "string list"
  projectID :: string
  workspace :: "WorkspaceTreeItem option"
  workspaceTreeFired :: "string list"
  runTreeFired :: "WorkspaceTreeItem option list"
  apiCalls :: "api_call list"

definition call_api :: "api_call \<Rightarrow> cloud_state \<Rightarrow> cloud_state" where
  "call_api c s = s\<lparr>apiCalls := apiCalls s @ [c]\<rparr>"

subsection \<open>\<^verbatim>\<open>RunTreeDataProvider\<close>\<close>

definition RunTreeDataProvider_refresh ::
  "WorkspaceTreeItem option \<Rightarrow> cloud_state \<Rightarrow> cloud_state" where
  "RunTreeDataProvider_refresh w s =
     (let s1 = (case w of Some item \<Rightarrow> s\<lparr>workspace := Some item\<rparr> | None \<Rightarrow> s)
      in s1\<lparr>runTreeFired := runTreeFired s1 @ [workspace s1]\<rparr>)"

definition run_url :: "string \<Rightarrow> string \<Rightarrow> string \<Rightarrow> string" where
  "run_url organization workspace_name run =
     ''https://app.staging.terraform.io/app/'' @ organization @ ''/workspaces/'' @
     workspace_name @ ''/runs/'' @ run"

definition getRuns ::
  "apiClient \<Rightarrow> WorkspaceTreeItem \<Rightarrow> cloud_state \<Rightarrow> RunTreeItem list promise \<times> cloud_state" where
  "getRuns api w s =
     (let organization = memento_get (globalState s) organization_key '''';
          req = \<lparr>params = [(''workspace_id'', wt_id w)], queries = None\<rparr>;
          s1 = call_api (ListRuns req) s
      in case listRuns api req of
           Rejected e \<Rightarrow> (Rejected e, s1)
         | Resolved projects \<Rightarrow>
             (Resolved (map (\<lambda>element.
                 \<lparr>rt_name = re_message element, rt_id = re_id element,
                  rt_url = run_url organization (wt_name w) (re_id element)\<rparr>) projects), s1))"

text \<open>
  \<^verbatim>\<open>try { return this.getRuns(this.workspace); } catch (error) { return []; }\<close>:
  the handler runs when the call throws, and gives the empty array.
\<close>

definition return_or_empty :: "'a list promise completion \<Rightarrow> 'a provider_result" where
  "return_or_empty c = (case c of Returned p \<Rightarrow> Thenable p | Thrown error \<Rightarrow> Items [])"

definition RunTreeDataProvider_getChildren ::
  "apiClient \<Rightarrow> cloud_state \<Rightarrow> RunTreeItem provider_result \<times> cloud_state" where
  "RunTreeDataProvider_getChildren api s =
     (case workspace s of
        None \<Rightarrow> (Items [], s)
      | Some w \<Rightarrow>
          (case getRuns api w s of (p, s1) \<Rightarrow> (return_or_empty (async_call p), s1)))"

subsection \<open>\<^verbatim>\<open>WorkspaceTreeDataProvider\<close>\<close>

text \<open>\<^verbatim>\<open>this.projectID = projectID ?? ''\<close>, then the change event.\<close>

definition WorkspaceTreeDataProvider_refresh ::
  "string option \<Rightarrow> cloud_state \<Rightarrow> cloud_state" where
  "WorkspaceTreeDataProvider_refresh p s =
     (let s1 = s\<lparr>projectID := (case p of None \<Rightarrow> '''' | Some v \<Rightarrow> v)\<rparr>
      in s1\<lparr>workspaceTreeFired := workspaceTreeFired s1 @ [projectID s1]\<rparr>)"

definition getWorkspaces ::
  "apiClient \<Rightarrow> string \<Rightarrow> cloud_state \<Rightarrow> WorkspaceTreeItem list promise \<times> cloud_state" where
  "getWorkspaces api organization s =
     (let req =
            (if projectID s \<noteq> '''' then
               \<lparr>params = [(''organization_name'', organization)],
                queries = Some [(''filter[project][id]'', projectID s)]\<rparr>
             else
               \<lparr>params = [(''organization_name'', organization)], queries = None\<rparr>);
          s1 = call_api (ListWorkspaces req) s
      in case listWorkspaces api req of
           Rejected e \<Rightarrow> (Rejected e, s1)
         | Resolved workspaces \<Rightarrow>
             (Resolved (map (\<lambda>element.
                 \<lparr>wt_name = el_name element, wt_id = el_id element\<rparr>) workspaces), s1))"

definition WorkspaceTreeDataProvider_getChildren ::
  "apiClient \<Rightarrow> cloud_state \<Rightarrow> WorkspaceTreeItem provider_result \<times> cloud_state" where
  "WorkspaceTreeDataProvider_getChildren api s =
     (let organization = memento_get (globalState s) organization_key ''''
      in if organization = '''' then (Items [], s)
         else (case getWorkspaces api organization s of
                 (p, s1) \<Rightarrow> (return_or_empty (async_call p), s1)))"

text \<open>
  The commands the provider registers. \<^verbatim>\<open>filterByProject\<close> takes the user's answer to
  the quick pick as a function of the items shown; the template
  \<^verbatim>\<open>`Chose ${answer} project`\<close> is given the item, an object.
\<close>

definition workspaces_listAll :: "cloud_state \<Rightarrow> cloud_state" where
  "workspaces_listAll s =
     RunTreeDataProvider_refresh None
       (WorkspaceTreeDataProvider_refresh None (s\<lparr>projectID := ''''\<rparr>))"

definition workspaces_refresh :: "WorkspaceTreeItem option \<Rightarrow> cloud_state \<Rightarrow> cloud_state" where
  "workspaces_refresh item s =
     RunTreeDataProvider_refresh item
       (WorkspaceTreeDataProvider_refresh (Some (projectID s)) s)"

definition runs_refresh :: "cloud_state \<Rightarrow> cloud_state" where
  "runs_refresh s = RunTreeDataProvider_refresh None s"

definition workspaces_filterByProject ::
  "apiClient \<Rightarrow> (QuickPickItem list \<Rightarrow> QuickPickItem option) \<Rightarrow> cloud_state \<Rightarrow>
   unit promise \<times> cloud_state" where
  "workspaces_filterByProject api showQuickPick s =
     (let organization = memento_get (globalState s) organization_key ''''
      in if organization = '''' then (Resolved (), s)
         else
           let req = \<lparr>params = [(''organization_name'', organization)], queries = None\<rparr>;
               s1 = call_api (ListProjects req) s
           in case listProjects api req of
                Rejected e \<Rightarrow> (Rejected e, s1)
              | Resolved orgs \<Rightarrow>
                  (case showQuickPick
                          (map (\<lambda>element.
                             \<lparr>label = el_name element, detail = el_id element\<rparr>) orgs) of
                     None \<Rightarrow> (Resolved (), s1)
                   | Some answer \<Rightarrow>
                       (Resolved (),
                        RunTreeDataProvider_refresh None
                          (WorkspaceTreeDataProvider_refresh (Some (detail answer))
                             (s1\<lparr>informationMessages := informationMessages s1 @
                                    [''Chose [object Object] project'']\<rparr>)))))"

subsection \<open>\<^verbatim>\<open>TerraformCloudFeature\<close>\<close>

text \<open>
  The constructor (lines 23 to 34 and 67 to 68), from the two mementos of the context: the
  status bar item starts hidden with no text, and is given the organization that
  \<^verbatim>\<open>ctx.workspaceState\<close> holds when that is a non-empty string. The providers start
  with \<^verbatim>\<open>projectID = ''\<close> and no workspace.
\<close>

definition TerraformCloudFeature_constructor :: "memento \<Rightarrow> memento \<Rightarrow> cloud_state" where
  "TerraformCloudFeature_constructor ws gs =
     (let org = memento_get ws organization_key ''''
      in \<lparr>workspaceState = ws, globalState = gs,
          statusBarText = (if org \<noteq> '''' then org else ''''),
          statusBarVisible = (org \<noteq> ''''),
          informationMessages = [], projectID = '''', workspace = None,
          workspaceTreeFired = [], runTreeFired = [], apiCalls = []\<rparr>)"

text \<open>The command \<^verbatim>\<open>terraform.cloud.organization.picker\<close> (lines 36 to 65).\<close>

definition organization_picker ::
  "apiClient \<Rightarrow> (string list \<Rightarrow> string option) \<Rightarrow> cloud_state \<Rightarrow> unit promise \<times> cloud_state" where
  "organization_picker api showQuickPick s =
     (let s1 = call_api ListOrganizations s
      in case listOrganizations api of
           Rejected e \<Rightarrow> (Rejected e, s1)
         | Resolved orgs \<Rightarrow>
             (case showQuickPick (map el_name orgs) of
                None \<Rightarrow> (Resolved (), s1)
              | Some answer \<Rightarrow>
                  (Resolved (),
                   s1\<lparr>statusBarText := answer, statusBarVisible := True,
                      informationMessages := informationMessages s1 @
                        [''Chose '' @ answer @ '' organization''],
                      globalState := memento_update (globalState s1) organization_key answer\<rparr>)))"

text \<open>
  The listener of \<^verbatim>\<open>workspaceView.onDidChangeSelection\<close> (lines 76 to 81):
  \<^verbatim>\<open>event.selection[0]\<close>, which is \<^verbatim>\<open>undefined\<close> for an empty selection, goes to
  the run provider.
\<close>

definition onDidChangeSelection :: "WorkspaceTreeItem list \<Rightarrow> cloud_state \<Rightarrow> cloud_state" where
  "onDidChangeSelection selection s =
     RunTreeDataProvider_refresh (case selection of [] \<Rightarrow> None | item # _ \<Rightarrow> Some item) s"

subsection \<open>Concrete inputs\<close>

text \<open>
  An API client whose every call is rejected with a network error, one that answers with
  one organization, project, workspace and run, the feature as constructed on an empty
  context and on a context whose global state holds the organization \<^verbatim>\<open>acme\<close>, a
  workspace item, and a user who picks the first item of a quick pick.
\<close>

definition offline_api :: apiClient where
  "offline_api =
     \<lparr>listOrganizations = Rejected (NetworkError ''ECONNREFUSED''),
      listProjects = (\<lambda>req. Rejected (NetworkError ''ECONNREFUSED'')),
      listWorkspaces = (\<lambda>req. Rejected (NetworkError ''ECONNREFUSED'')),
      listRuns = (\<lambda>req. Rejected (NetworkError ''ECONNREFUSED''))\<rparr>"

definition acme_api :: apiClient where
  "acme_api =
     \<lparr>listOrganizations = Resolved [\<lparr>el_id = ''org-1'', el_name = ''acme''\<rparr>],
      listProjects = (\<lambda>req. Resolved [\<lparr>el_id = ''prj-123'', el_name = ''web''\<rparr>]),
      listWorkspaces = (\<lambda>req. Resolved [\<lparr>el_id = ''ws-7'', el_name = ''prod''\<rparr>]),
      listRuns = (\<lambda>req. Resolved [\<lparr>re_id = ''run-42'', re_message = ''apply''\<rparr>])\<rparr>"

definition fresh_state :: cloud_state where
  "fresh_state = TerraformCloudFeature_constructor Map.empty Map.empty"

definition acme_state :: cloud_state where
  "acme_state =
     TerraformCloudFeature_constructor Map.empty
       (memento_update Map.empty organization_key ''acme'')"

definition prod_item :: WorkspaceTreeItem where
  "prod_item = \<lparr>wt_name = ''prod'', wt_id = ''ws-7''\<rparr>"

definition pick_first :: "string list \<Rightarrow> string option" where
  "pick_first items = (case items of [] \<Rightarrow> None | x # _ \<Rightarrow> Some x)"

section \<open>The close handler and the initialization-failure handler\<close>

lemma closed_no_error_later:
  assumes "initializationError s = None" and "1 \<le> crashCount s"
  shows "closed s =
     (\<lparr>ch_message = Some failure_message, ch_action = DoNotRestart\<rparr>,
      appendLine failure_message (s\<lparr>crashCount := js_add_one (crashCount s)\<rparr>))"
  using assms by (simp add: closed_def js_add_one_def Let_def)

lemma closed_no_error_first:
  assumes "initializationError s = None" and "crashCount s = 0"
  shows "closed s =
     (\<lparr>ch_message = None, ch_action = Restart\<rparr>,
      appendLine ''Server has failed. Restarting'' (s\<lparr>crashCount := 1\<rparr>))"
  using assms by (simp add: closed_def js_add_one_def Let_def)

lemma fst_closes_Suc:
  "fst (closes (Suc n) s) = fst (closed s) # fst (closes n (snd (closed s)))"
  by (simp split: prod.splits)

lemma closes_no_error_later:
  assumes "initializationError s = None" and "1 \<le> crashCount s"
  shows "fst (closes n s) =
           replicate n \<lparr>ch_message = Some failure_message, ch_action = DoNotRestart\<rparr>"
  using assms
proof (induction n arbitrary: s)
  case 0
  show ?case by simp
next
  case (Suc n)
  let ?s1 = "appendLine failure_message (s\<lparr>crashCount := js_add_one (crashCount s)\<rparr>)"
  have c: "closed s = (\<lparr>ch_message = Some failure_message, ch_action = DoNotRestart\<rparr>, ?s1)"
    using Suc.prems by (rule closed_no_error_later)
  have "initializationError ?s1 = None" "1 \<le> crashCount ?s1"
    using Suc.prems by (simp_all add: appendLine_def js_add_one_def)
  then have "fst (closes n ?s1) =
      replicate n \<lparr>ch_message = Some failure_message, ch_action = DoNotRestart\<rparr>"
    by (rule Suc.IH)
  then show ?case using c by (simp only: fst_closes_Suc fst_conv snd_conv replicate_Suc)
qed

text \<open>
  Claim C1. From a state with no initialization error recorded and a crash counter of 0,
  the first close event is answered with \<^verbatim>\<open>Restart\<close> (and no message) and leaves the
  counter at 1; every later close event of the run is answered with \<^verbatim>\<open>DoNotRestart\<close>
  and the generic failure message. So exactly one answer of the run is a restart.
\<close>

theorem closed_restarts_exactly_once:
  assumes "initializationError s = None" and "crashCount s = 0"
  shows "fst (closed s) = \<lparr>ch_message = None, ch_action = Restart\<rparr> \<and>
         crashCount (snd (closed s)) = 1 \<and>
         fst (closes (Suc n) s) =
           \<lparr>ch_message = None, ch_action = Restart\<rparr> #
           replicate n \<lparr>ch_message = Some failure_message, ch_action = DoNotRestart\<rparr> \<and>
         length (filter (\<lambda>r. ch_action r = Restart) (fst (closes (Suc n) s))) = 1"
proof -
  let ?s1 = "appendLine ''Server has failed. Restarting'' (s\<lparr>crashCount := 1\<rparr>)"
  have c: "closed s = (\<lparr>ch_message = None, ch_action = Restart\<rparr>, ?s1)"
    using assms by (rule closed_no_error_first)
  have "initializationError ?s1 = None" "1 \<le> crashCount ?s1"
    using assms by (simp_all add: appendLine_def)
  then have r: "fst (closes n ?s1) =
      replicate n \<lparr>ch_message = Some failure_message, ch_action = DoNotRestart\<rparr>"
    by (rule closes_no_error_later)
  have l: "fst (closes (Suc n) s) =
           \<lparr>ch_message = None, ch_action = Restart\<rparr> #
           replicate n \<lparr>ch_message = Some failure_message, ch_action = DoNotRestart\<rparr>"
    using c r by (simp only: fst_closes_Suc fst_conv snd_conv)
  show ?thesis using c l by (simp add: appendLine_def)
qed

theorem closed_restarts_exactly_once_witness:
  "initializationError initial_state = None \<and> crashCount initial_state = 0 \<and>
   fst (closes 3 initial_state) =
     [\<lparr>ch_message = None, ch_action = Restart\<rparr>,
      \<lparr>ch_message = Some failure_message, ch_action = DoNotRestart\<rparr>,
      \<lparr>ch_message = Some failure_message, ch_action = DoNotRestart\<rparr>]"
  using closed_restarts_exactly_once [of initial_state 2]
  by (simp add: initial_state_def numeral_3_eq_3 numeral_2_eq_2)

lemma closed_with_error:
  assumes "initializationError s \<noteq> None"
  shows "closed s =
     (\<lparr>ch_message = Some '''', ch_action = DoNotRestart\<rparr>,
      appendLine ''Initialization error handled by handler'' s)"
  using assms by (simp add: closed_def)

lemma closes_with_error:
  assumes "initializationError s \<noteq> None"
  shows "fst (closes n s) = replicate n \<lparr>ch_message = Some '''', ch_action = DoNotRestart\<rparr>"
  using assms
proof (induction n arbitrary: s)
  case 0
  show ?case by simp
next
  case (Suc n)
  let ?s1 = "appendLine ''Initialization error handled by handler'' s"
  have c: "closed s = (\<lparr>ch_message = Some '''', ch_action = DoNotRestart\<rparr>, ?s1)"
    using Suc.prems by (rule closed_with_error)
  have "initializationError ?s1 \<noteq> None"
    using Suc.prems by (simp add: appendLine_def)
  then have "fst (closes n ?s1) = replicate n \<lparr>ch_message = Some '''', ch_action = DoNotRestart\<rparr>"
    by (rule Suc.IH)
  then show ?case using c by (simp only: fst_closes_Suc fst_conv snd_conv replicate_Suc)
qed

text \<open>
  Claim C2. Once an initialization error is recorded, \<^verbatim>\<open>closed\<close> answers
  \<^verbatim>\<open>DoNotRestart\<close> with the empty message, whatever the crash counter holds; it
  leaves the counter and the recorded error as they are, so every close event of a run
  from such a state gets that answer.
\<close>

theorem closed_never_restarts_after_initialization_error:
  assumes "initializationError s \<noteq> None"
  shows "fst (closed s) = \<lparr>ch_message = Some '''', ch_action = DoNotRestart\<rparr> \<and>
         crashCount (snd (closed s)) = crashCount s \<and>
         initializationError (snd (closed s)) = initializationError s \<and>
         fst (closes n s) = replicate n \<lparr>ch_message = Some '''', ch_action = DoNotRestart\<rparr>"
  using assms closes_with_error [OF assms, of n]
  by (simp add: closed_with_error appendLine_def)

theorem closed_never_restarts_after_initialization_error_witness:
  "initializationError
     (snd (initializationFailedHandler [''serve''] (Some (Error ''exit 1'')) initial_state)) \<noteq> None \<and>
   fst (closes 2
     (snd (initializationFailedHandler [''serve''] (Some (Error ''exit 1'')) initial_state))) =
     [\<lparr>ch_message = Some '''', ch_action = DoNotRestart\<rparr>,
      \<lparr>ch_message = Some '''', ch_action = DoNotRestart\<rparr>]"
  using closed_never_restarts_after_initialization_error
    [of "snd (initializationFailedHandler [''serve''] (Some (Error ''exit 1'')) initial_state)" 2]
  by (simp add: initializationFailedHandler_def Let_def appendLine_def numeral_2_eq_2)

text \<open>
  Claim C8. For every value passed to it, \<^verbatim>\<open>initializationFailedHandler\<close> returns
  \<^verbatim>\<open>false\<close>, stores the value in \<^verbatim>\<open>initializationError\<close>, sends one telemetry
  exception with it, and shows one error message that is not modal and offers the items
  Open Settings, Open Logs and More Info, in this order; More Info opens the
  troubleshooting section of the documentation.
\<close>

theorem initializationFailedHandler_reports_once:
  "fst (initializationFailedHandler serverArgs error s) = False \<and>
   initializationError (snd (initializationFailedHandler serverArgs error s)) = error \<and>
   reporter (snd (initializationFailedHandler serverArgs error s)) =
     reporter s @ [TelemetryException error] \<and>
   errorMessages (snd (initializationFailedHandler serverArgs error s)) =
     errorMessages s @
       [\<lparr>em_message = (if first_is_not_serve serverArgs then serve_message else failure_message),
         em_detail = '''', em_modal = False,
         em_items = [''Open Settings'', ''Open Logs'', ''More Info'']\<rparr>] \<and>
   notification_choice (Some ''More Info'') =
     [ExecuteCommand ''vscode.open''
        ''https://github.com/hashicorp/vscode-terraform#troubleshooting'']"
  by (simp add: initializationFailedHandler_def Let_def appendLine_def notification_choice_def)

section \<open>The tree data providers\<close>

lemmas cloud_defs =
  TerraformCloudFeature_constructor_def memento_get_def memento_update_def
  organization_key_def call_api_def return_or_empty_def async_call_def

lemma acme_org: "memento_get (globalState acme_state) organization_key '''' = ''acme''"
  by (simp add: acme_state_def cloud_defs)

text \<open>
  The handler of \<^verbatim>\<open>return_or_empty\<close> is never reached from the call of an
  \<^verbatim>\<open>async\<close> function.
\<close>

lemma return_or_empty_async_call: "return_or_empty (async_call p) = Thenable p"
  by (simp add: return_or_empty_def async_call_def)

lemma WorkspaceTreeDataProvider_getChildren_rejected:
  assumes "memento_get (globalState s) organization_key '''' \<noteq> ''''"
    and "\<forall>req. listWorkspaces api req = Rejected e"
  shows "fst (WorkspaceTreeDataProvider_getChildren api s) = Thenable (Rejected e)"
  using assms
  by (simp add: WorkspaceTreeDataProvider_getChildren_def getWorkspaces_def Let_def
      return_or_empty_def async_call_def)

lemma RunTreeDataProvider_getChildren_rejected:
  assumes "workspace s = Some w"
    and "\<forall>req. listRuns api req = Rejected e"
  shows "fst (RunTreeDataProvider_getChildren api s) = Thenable (Rejected e)"
  using assms
  by (simp add: RunTreeDataProvider_getChildren_def getRuns_def Let_def
      return_or_empty_def async_call_def)

text \<open>
  Claim C3. With the organization \<^verbatim>\<open>acme\<close> set and a client whose list calls are
  rejected with a network error, \<^verbatim>\<open>WorkspaceTreeDataProvider.getChildren\<close> returns
  the rejected promise of \<^verbatim>\<open>getWorkspaces\<close>: not the empty array, and not a promise
  resolved to it. \<^verbatim>\<open>RunTreeDataProvider.getChildren\<close> does the same with the promise
  of \<^verbatim>\<open>getRuns\<close> once a workspace is selected. The \<^verbatim>\<open>catch\<close> clause is there, but
  the promise is returned without \<^verbatim>\<open>await\<close>, and a call of an \<^verbatim>\<open>async\<close>
  function does not throw.
\<close>

theorem getChildren_passes_rejection_on:
  "fst (WorkspaceTreeDataProvider_getChildren offline_api acme_state) =
     Thenable (Rejected (NetworkError ''ECONNREFUSED'')) \<and>
   fst (WorkspaceTreeDataProvider_getChildren offline_api acme_state) \<noteq> Items [] \<and>
   fst (WorkspaceTreeDataProvider_getChildren offline_api acme_state) \<noteq> Thenable (Resolved []) \<and>
   fst (RunTreeDataProvider_getChildren offline_api
          (RunTreeDataProvider_refresh (Some prod_item) acme_state)) =
     Thenable (Rejected (NetworkError ''ECONNREFUSED''))"
proof -
  have o: "memento_get (globalState acme_state) organization_key '''' \<noteq> ''''"
    by (simp add: acme_org)
  have w: "\<forall>req. listWorkspaces offline_api req = Rejected (NetworkError ''ECONNREFUSED'')"
    by (simp add: offline_api_def)
  have r: "\<forall>req. listRuns offline_api req = Rejected (NetworkError ''ECONNREFUSED'')"
    by (simp add: offline_api_def)
  have s: "workspace (RunTreeDataProvider_refresh (Some prod_item) acme_state) = Some prod_item"
    by (simp add: RunTreeDataProvider_refresh_def Let_def)
  show ?thesis
    by (simp add: WorkspaceTreeDataProvider_getChildren_rejected [OF o w]
        RunTreeDataProvider_getChildren_rejected [OF s r])
qed

text \<open>
  Claim C4. When the organization read from the stored state is the empty string,
  \<^verbatim>\<open>WorkspaceTreeDataProvider.getChildren\<close> returns the empty array and leaves the state,
  and with it the log of API calls, unchanged, for every value \<open>p\<close> of the project filter.
\<close>

theorem getChildren_without_organization:
  assumes "memento_get (globalState s) organization_key '''' = ''''"
  shows "WorkspaceTreeDataProvider_getChildren api (s\<lparr>projectID := p\<rparr>) =
           (Items [], s\<lparr>projectID := p\<rparr>) \<and>
         apiCalls (snd (WorkspaceTreeDataProvider_getChildren api (s\<lparr>projectID := p\<rparr>))) =
           apiCalls s"
  using assms by (simp add: WorkspaceTreeDataProvider_getChildren_def)

theorem getChildren_without_organization_witness:
  "memento_get (globalState fresh_state) organization_key '''' = '''' \<and>
   WorkspaceTreeDataProvider_getChildren acme_api (fresh_state\<lparr>projectID := ''prj-123''\<rparr>) =
     (Items [], fresh_state\<lparr>projectID := ''prj-123''\<rparr>)"
  using getChildren_without_organization [of fresh_state acme_api "''prj-123''"]
  by (simp add: fresh_state_def cloud_defs)

text \<open>
  Claim C5. With a non-empty organization \<open>org\<close>: after \<^verbatim>\<open>refresh(p)\<close> for a non-empty
  \<open>p\<close>, \<^verbatim>\<open>getChildren\<close> makes one call of \<^verbatim>\<open>listWorkspaces\<close>, with the parameter
  \<^verbatim>\<open>organization_name\<close> and the query \<^verbatim>\<open>filter[project][id] = p\<close>; when the project
  filter is the empty string (as it is after \<^verbatim>\<open>refresh()\<close>), the call has the parameter
  \<^verbatim>\<open>organization_name\<close> and no queries.
\<close>

theorem getChildren_requests_project_filter:
  assumes "memento_get (globalState s) organization_key '''' = org" and "org \<noteq> ''''"
  shows "(p \<noteq> '''' \<longrightarrow>
            apiCalls (snd (WorkspaceTreeDataProvider_getChildren api
                             (WorkspaceTreeDataProvider_refresh (Some p) s))) =
            apiCalls s @
              [ListWorkspaces \<lparr>params = [(''organization_name'', org)],
                               queries = Some [(''filter[project][id]'', p)]\<rparr>]) \<and>
         (projectID s = '''' \<longrightarrow>
            apiCalls (snd (WorkspaceTreeDataProvider_getChildren api s)) =
            apiCalls s @
              [ListWorkspaces \<lparr>params = [(''organization_name'', org)], queries = None\<rparr>]) \<and>
         apiCalls (snd (WorkspaceTreeDataProvider_getChildren api
                          (WorkspaceTreeDataProvider_refresh None s))) =
           apiCalls s @
             [ListWorkspaces \<lparr>params = [(''organization_name'', org)], queries = None\<rparr>]"
  using assms
  by (simp add: WorkspaceTreeDataProvider_getChildren_def getWorkspaces_def
      WorkspaceTreeDataProvider_refresh_def Let_def call_api_def split: promise.splits)

theorem getChildren_requests_project_filter_witness:
  "memento_get (globalState acme_state) organization_key '''' = ''acme'' \<and>
   ''acme'' \<noteq> '''' \<and> ''prj-123'' \<noteq> '''' \<and> projectID acme_state = '''' \<and>
   apiCalls (snd (WorkspaceTreeDataProvider_getChildren acme_api
                    (WorkspaceTreeDataProvider_refresh (Some ''prj-123'') acme_state))) =
     [ListWorkspaces \<lparr>params = [(''organization_name'', ''acme'')],
                      queries = Some [(''filter[project][id]'', ''prj-123'')]\<rparr>] \<and>
   apiCalls (snd (WorkspaceTreeDataProvider_getChildren acme_api acme_state)) =
     [ListWorkspaces \<lparr>params = [(''organization_name'', ''acme'')], queries = None\<rparr>]"
  using getChildren_requests_project_filter [of acme_state "''acme''" "''prj-123''" acme_api]
  by (simp add: acme_org) (simp add: acme_state_def cloud_defs)

text \<open>
  Claim C6. After \<^verbatim>\<open>refresh(W)\<close>, \<^verbatim>\<open>RunTreeDataProvider.getChildren\<close> makes one
  call of \<^verbatim>\<open>listRuns\<close>, with \<^verbatim>\<open>workspace_id\<close> the id of \<open>W\<close>; when the call resolves
  to the runs \<open>rs\<close>, the result is one item per run \<open>R\<close>, in order, with the URL
  \<^verbatim>\<open>https://app.staging.terraform.io/app/<org>/workspaces/<W.name>/runs/<R.id>\<close>, where
  \<^verbatim>\<open><org>\<close> is the current organization.
\<close>

theorem getChildren_lists_runs_of_selected_workspace:
  "apiCalls (snd (RunTreeDataProvider_getChildren api (RunTreeDataProvider_refresh (Some W) s))) =
     apiCalls s @ [ListRuns \<lparr>params = [(''workspace_id'', wt_id W)], queries = None\<rparr>] \<and>
   (listRuns api \<lparr>params = [(''workspace_id'', wt_id W)], queries = None\<rparr> = Resolved rs \<longrightarrow>
    fst (RunTreeDataProvider_getChildren api (RunTreeDataProvider_refresh (Some W) s)) =
      Thenable (Resolved (map (\<lambda>R.
        \<lparr>rt_name = re_message R, rt_id = re_id R,
         rt_url = ''https://app.staging.terraform.io/app/'' @
                  memento_get (globalState s) organization_key '''' @
                  ''/workspaces/'' @ wt_name W @ ''/runs/'' @ re_id R\<rparr>) rs)))"
  by (simp add: RunTreeDataProvider_getChildren_def RunTreeDataProvider_refresh_def getRuns_def
      Let_def call_api_def run_url_def return_or_empty_def async_call_def split: promise.splits)

theorem getChildren_lists_runs_of_selected_workspace_witness:
  "listRuns acme_api \<lparr>params = [(''workspace_id'', wt_id prod_item)], queries = None\<rparr> =
     Resolved [\<lparr>re_id = ''run-42'', re_message = ''apply''\<rparr>] \<and>
   fst (RunTreeDataProvider_getChildren acme_api
          (RunTreeDataProvider_refresh (Some prod_item) acme_state)) =
     Thenable (Resolved
       [\<lparr>rt_name = ''apply'', rt_id = ''run-42'',
         rt_url = ''https://app.staging.terraform.io/app/acme/workspaces/prod/runs/run-42''\<rparr>])"
  using getChildren_lists_runs_of_selected_workspace
    [of acme_api prod_item acme_state "[\<lparr>re_id = ''run-42'', re_message = ''apply''\<rparr>]"]
  by (simp add: acme_org) (simp add: acme_api_def prod_item_def)

text \<open>
  Claim C7. On a fresh context, picking the organization \<^verbatim>\<open>acme\<close> stores it in
  \<^verbatim>\<open>ctx.globalState\<close> and leaves \<^verbatim>\<open>ctx.workspaceState\<close> without the key. The
  constructor reads the key from \<^verbatim>\<open>ctx.workspaceState\<close>, so the feature constructed
  again on the same context starts with an empty, hidden status bar item although
  \<^verbatim>\<open>acme\<close> was chosen.
\<close>

theorem organization_picker_writes_globalState:
  "workspaceState (snd (organization_picker acme_api pick_first fresh_state)) organization_key = None \<and>
   globalState (snd (organization_picker acme_api pick_first fresh_state)) organization_key =
     Some ''acme'' \<and>
   statusBarText (snd (organization_picker acme_api pick_first fresh_state)) = ''acme'' \<and>
   statusBarText
     (TerraformCloudFeature_constructor
        (workspaceState (snd (organization_picker acme_api pick_first fresh_state)))
        (globalState (snd (organization_picker acme_api pick_first fresh_state)))) = '''' \<and>
   statusBarVisible
     (TerraformCloudFeature_constructor
        (workspaceState (snd (organization_picker acme_api pick_first fresh_state)))
        (globalState (snd (organization_picker acme_api pick_first fresh_state)))) = False"
  by (simp add: organization_picker_def acme_api_def pick_first_def fresh_state_def Let_def
      cloud_defs)

text \<open>
  Claim C9. \<^verbatim>\<open>WorkspaceTreeDataProvider.refresh()\<close> without a project sets the project
  filter to the empty string, whatever it was, and the change event it fires sees the empty
  filter. The command \<^verbatim>\<open>terraform.cloud.workspaces.listAll\<close> ends with the empty filter
  too, and does exactly what \<^verbatim>\<open>refresh()\<close> followed by the refresh of the run view
  does: its own assignment to the filter adds nothing.
\<close>

theorem refresh_without_argument_clears_filter:
  "projectID (WorkspaceTreeDataProvider_refresh None s) = '''' \<and>
   workspaceTreeFired (WorkspaceTreeDataProvider_refresh None s) = workspaceTreeFired s @ [''''] \<and>
   projectID (workspaces_listAll s) = '''' \<and>
   workspaceTreeFired (workspaces_listAll s) = workspaceTreeFired s @ [''''] \<and>
   workspaces_listAll s =
     RunTreeDataProvider_refresh None (WorkspaceTreeDataProvider_refresh None s)"
  by (simp add: WorkspaceTreeDataProvider_refresh_def workspaces_listAll_def
      RunTreeDataProvider_refresh_def Let_def)

text \<open>
  Claim C10. \<^verbatim>\<open>RunTreeDataProvider.refresh()\<close> without a workspace changes nothing but
  the log of fired change events, which grows by one; the selected workspace stays. The same
  holds for a selection event with an empty selection. The children fetched after the
  command \<^verbatim>\<open>terraform.cloud.runs.refresh\<close> are those of the workspace selected before:
  the same result and the same API calls as without the refresh.
\<close>

theorem refresh_without_workspace_keeps_selection:
  "workspace (RunTreeDataProvider_refresh None s) = workspace s \<and>
   RunTreeDataProvider_refresh None s = s\<lparr>runTreeFired := runTreeFired s @ [workspace s]\<rparr> \<and>
   onDidChangeSelection [] s = s\<lparr>runTreeFired := runTreeFired s @ [workspace s]\<rparr> \<and>
   fst (RunTreeDataProvider_getChildren api (runs_refresh s)) =
     fst (RunTreeDataProvider_getChildren api s) \<and>
   apiCalls (snd (RunTreeDataProvider_getChildren api (runs_refresh s))) =
     apiCalls (snd (RunTreeDataProvider_getChildren api s))"
  by (simp add: RunTreeDataProvider_refresh_def runs_refresh_def onDidChangeSelection_def
      RunTreeDataProvider_getChildren_def getRuns_def Let_def call_api_def
      split: option.splits promise.splits)

text \<open>
  The project filter lives in the field \<^verbatim>\<open>projectID\<close> only: the command that sets it
  writes neither memento.
\<close>

lemma workspaces_filterByProject_keeps_mementos:
  "workspaceState (snd (workspaces_filterByProject api showQuickPick s)) = workspaceState s \<and>
   globalState (snd (workspaces_filterByProject api showQuickPick s)) = globalState s"
  by (simp add: workspaces_filterByProject_def Let_def call_api_def
      WorkspaceTreeDataProvider_refresh_def RunTreeDataProvider_refresh_def
      split: promise.splits option.splits)

end
